theory Spec2Isabelle
  imports Complex_Main
begin

section \<open>Documents, clock readings and the two collections\<close>

text \<open>
  The program keeps two collections of documents, \<open>Goal\<close> and \<open>User\<close>. The records below
  hold the fields that \<open>app.js\<close> reads and writes on them (prefixed \<open>g_\<close> and \<open>u_\<close>
  because the two documents share the field names \<open>name\<close> and \<open>log\<close>). Numbers that the
  code only adds to or compares are integers; \<open>lastUpdate\<close> is a rational, since a new goal stores
  \<open>d.getTime() / 1000\<close> while a progress update stores \<open>d.getTime()\<close>. Identifiers
  (\<open>_id\<close>) are the strings that travel inside the payloads, and \<open>ObjectId\<close> is the identity
  on them. Text is ASCII. The store keeps every field that a save or an update sets, also those
  the schema files do not list (\<open>lastDay\<close> and \<open>total\<close> of a goal, \<open>log\<close> of a user).
\<close>

record goal =
  g_id :: string
  g_user :: nat
  g_name :: string
  g_streak :: int
  g_log :: "string list"
  g_lastUpdate :: rat
  g_lastDay :: int
  g_total :: int

record user =
  u_id :: string
  u_name :: nat
  u_status :: string
  u_numGoals :: int
  u_finished :: "string list"
  u_lastPicTime :: int
  u_log :: "string list option"

text \<open>A reading of \<open>new Date()\<close>: milliseconds since the epoch, day of the week, month, day
  of the month.\<close>

record clock =
  getTime :: int
  getDay :: int
  getMonth :: int
  getDate :: int

record store =
  users :: "user list"
  goals :: "goal list"

text \<open>Reading a property of \<open>null\<close> throws a \<open>TypeError\<close> inside the callback.\<close>

datatype error = TypeError

subsection \<open>The collection operations the program uses\<close>

fun findOne :: "('a \<Rightarrow> bool) \<Rightarrow> 'a list \<Rightarrow> 'a option" where
  "findOne P [] = None"
| "findOne P (x # xs) = (if P x then Some x else findOne P xs)"

text \<open>\<open>update\<close> with \<open>$set\<close> changes the first matching document and nothing when none
  matches.\<close>

fun updateOne :: "('a \<Rightarrow> bool) \<Rightarrow> ('a \<Rightarrow> 'a) \<Rightarrow> 'a list \<Rightarrow> 'a list" where
  "updateOne P f [] = []"
| "updateOne P f (x # xs) = (if P x then f x # xs else x # updateOne P f xs)"

definition remove :: "('a \<Rightarrow> bool) \<Rightarrow> 'a list \<Rightarrow> 'a list" where
  "remove P xs = filter (\<lambda>x. \<not> P x) xs"

definition goalById :: "string \<Rightarrow> goal \<Rightarrow> bool" where
  "goalById gid g = (g_id g = gid)"

definition userByName :: "nat \<Rightarrow> user \<Rightarrow> bool" where
  "userByName senderID u = (u_name u = senderID)"

section \<open>The streak engine\<close>

text \<open>\<open>streak(senderID, goal)\<close>: the decision, from the clock read inside the function.\<close>

definition streak :: "clock \<Rightarrow> goal \<Rightarrow> string" where
  "streak d goal =
     (let time = getTime d;
          day = getDay d;
          diffDay = day - g_lastDay goal;
          diffTime = (of_int time - g_lastUpdate goal) / 1000
      in if (diffDay = 1 \<or> diffDay = - 6) \<and> diffTime < 86400 * 2 then ''add''
         else if diffDay = 0 then ''keep''
         else ''reset'')"

text \<open>The provisional counter of \<open>streakProcess\<close>.\<close>

definition newStreak :: "string \<Rightarrow> int \<Rightarrow> goal \<Rightarrow> int" where
  "newStreak res inc result =
     (if res = ''add'' then g_streak result + inc
      else if res = ''keep'' then max inc (g_streak result)
      else inc)"

text \<open>\<open>streakProcess(id, type, senderID)\<close>: \<open>d\<close> is the clock read on entry, \<open>d'\<close> the one
  read by \<open>streak\<close> inside the callback of \<open>findOne\<close>.\<close>

definition streakProcess :: "clock \<Rightarrow> clock \<Rightarrow> string \<Rightarrow> string \<Rightarrow> store \<Rightarrow> error + store" where
  "streakProcess d d' gid type s =
     (let inc = (if type = ''prog'' then 1 else 0)
      in case findOne (goalById gid) (goals s) of
           None \<Rightarrow> Inl TypeError
         | Some result \<Rightarrow>
             (let res = streak d' result;
                  ns = newStreak res inc result;
                  total = g_total result + inc;
                  s1 = (if res = ''reset''
                        then s\<lparr>goals := updateOne (goalById gid) (\<lambda>g. g\<lparr>g_streak := ns\<rparr>) (goals s)\<rparr>
                        else s);
                  s2 = (if type = ''prog''
                        then s1\<lparr>goals := updateOne (goalById gid)
                                 (\<lambda>g. g\<lparr>g_streak := ns, g_lastUpdate := of_int (getTime d),
                                        g_lastDay := getDay d, g_total := total\<rparr>) (goals s1)\<rparr>
                        else s1)
              in Inr s2))"

section \<open>Strings and numbers as JavaScript treats them\<close>

text \<open>\<open>str.substring(a, b)\<close>: both indices are clamped to the string and swapped when
  \<open>a > b\<close>.\<close>

definition substring :: "int \<Rightarrow> int \<Rightarrow> string \<Rightarrow> string" where
  "substring a b str =
     (let n = int (length str);
          a' = max 0 (min a n);
          b' = max 0 (min b n);
          lo = min a' b';
          hi = max a' b'
      in take (nat (hi - lo)) (drop (nat lo) str))"

fun indexOf :: "string \<Rightarrow> char \<Rightarrow> int" where
  "indexOf [] c = - 1"
| "indexOf (x # xs) c = (if x = c then 0 else (let i = indexOf xs c in if i < 0 then - 1 else i + 1))"

definition toLowerChar :: "char \<Rightarrow> char" where
  "toLowerChar c = (let n = (of_char c :: nat) in if 65 \<le> n \<and> n \<le> 90 then char_of (n + 32) else c)"

definition toUpperChar :: "char \<Rightarrow> char" where
  "toUpperChar c = (let n = (of_char c :: nat) in if 97 \<le> n \<and> n \<le> 122 then char_of (n - 32) else c)"

definition toLowerCase :: "string \<Rightarrow> string" where
  "toLowerCase str = map toLowerChar str"

text \<open>\<open>messageText.charAt(0).toUpperCase() + messageText.slice(1)\<close>\<close>

definition capitalize :: "string \<Rightarrow> string" where
  "capitalize str = (case str of [] \<Rightarrow> [] | c # cs \<Rightarrow> toUpperChar c # cs)"

text \<open>\<open>String(n)\<close> on an integer: its decimal digits, with a minus sign when negative.\<close>

fun digits :: "nat \<Rightarrow> string" where
  "digits n = (if n < 10 then [char_of (48 + n)] else digits (n div 10) @ [char_of (48 + n mod 10)])"

declare digits.simps [simp del]

definition String_of :: "int \<Rightarrow> string" where
  "String_of i = (if i < 0 then CHR ''-'' # digits (nat (- i)) else digits (nat i))"

text \<open>\<open>parseInt\<close> on the index text of a \<open>logs\<close> payload: the leading decimal digits, or
  \<open>NaN\<close> (here \<open>None\<close>) when there is none.\<close>

definition isDigit :: "char \<Rightarrow> bool" where
  "isDigit c = (let n = (of_char c :: nat) in 48 \<le> n \<and> n \<le> 57)"

definition parseInt :: "string \<Rightarrow> int option" where
  "parseInt str =
     (case takeWhile isDigit str of
        [] \<Rightarrow> None
      | ds \<Rightarrow> Some (foldl (\<lambda>a c. 10 * a + (int (of_char c) - 48)) 0 ds))"

definition newline :: string where
  "newline = [CHR 0x0A]"

text \<open>The flame that precedes a streak or a total: a space and U+1F525, here in UTF-8.\<close>

definition flame :: string where
  "flame = [CHR '' '', CHR 0xF0, CHR 0x9F, CHR 0x94, CHR 0xA5]"

section \<open>Replies and the environment of one event\<close>

text \<open>What the handlers hand to the Send API. The text replies carry their text; the
  templates carry the data they are built from.\<close>

datatype reply =
    TextMessage nat string
  | HomeMenu nat
  | HomeMessage nat string
  | GoalCard nat goal
  | GoalList nat string "goal list" bool
  | LogsPage nat goal "int option"
  | Confirm nat string string
  | ConfirmFinish nat string string
  | ImageMessage nat "string option"
  | GenericMessage nat
  | TestMessage nat

text \<open>
  What one event takes from outside the program: \<open>now\<close> is the clock a handler reads on
  entry, \<open>later\<close> the clock \<open>streak\<close> reads inside a callback, \<open>fresh\<close> the \<open>_id\<close> the
  store gives to a document saved during the event, \<open>removeErr\<close> whether \<open>Goal.remove\<close>
  reports an error (removing nothing is not one), and \<open>feed\<close> what the motivation feed yields
  for a cursor: nothing, or the index reached, a title and an address.
\<close>

record env =
  now :: clock
  later :: clock
  fresh :: string
  removeErr :: bool
  feed :: "int \<Rightarrow> (int \<times> string \<times> string) option"

record message =
  m_is_echo :: bool
  m_text :: "string option"
  m_quick_reply :: "string option"

datatype event = MessageEvent nat message | PostbackEvent nat string

section \<open>Goal life cycle\<close>

definition makeGoal :: "nat \<Rightarrow> store \<Rightarrow> error + (store \<times> reply list)" where
  "makeGoal senderID s =
     (case findOne (userByName senderID) (users s) of
        None \<Rightarrow> Inl TypeError
      | Some result \<Rightarrow>
          if u_numGoals result = 5
          then Inr (s, [TextMessage senderID
                 ''You have reached the maximum number of goals. Finish one or delete one to add more! Going to home...'',
                 HomeMenu senderID])
          else Inr (s\<lparr>users := updateOne (userByName senderID) (\<lambda>u. u\<lparr>u_status := ''naming_goal''\<rparr>) (users s)\<rparr>,
                    [TextMessage senderID ''What is the name of your goal?'']))"

definition newGoal :: "env \<Rightarrow> nat \<Rightarrow> string \<Rightarrow> goal" where
  "newGoal e senderID messageText =
     \<lparr>g_id = fresh e, g_user = senderID, g_name = messageText, g_streak = 0, g_log = [],
      g_lastUpdate = of_int (getTime (now e)) / 1000, g_lastDay = getDay (now e), g_total = 0\<rparr>"

text \<open>\<open>nameGoal\<close>: the goal count is updated after, and outside, the callback that looks for
  a goal of the same name.\<close>

definition nameGoal :: "env \<Rightarrow> nat \<Rightarrow> string \<Rightarrow> store \<Rightarrow> error + (store \<times> reply list)" where
  "nameGoal e senderID messageText0 s =
     (let messageText = capitalize messageText0
      in if length messageText > 100
         then Inr (s, [TextMessage senderID ''That goal name is too long. Try another name.''])
         else
           (let (s1, out1) =
                  (case findOne (\<lambda>g. g_user g = senderID \<and> g_name g = messageText) (goals s) of
                     Some found \<Rightarrow>
                       (s, [TextMessage senderID ''Goal with that name has already been created. Try another name.''])
                   | None \<Rightarrow>
                       (s\<lparr>goals := goals s @ [newGoal e senderID messageText],
                          users := updateOne (userByName senderID) (\<lambda>u. u\<lparr>u_status := ''null''\<rparr>) (users s)\<rparr>,
                        [TextMessage senderID (''Goal '' @ messageText @
                           '' Added. Be sure to add progress to it every day to build up your goal streak! Going to home...''),
                         HomeMenu senderID]))
            in case findOne (userByName senderID) (users s) of
                 None \<Rightarrow> Inl TypeError
               | Some result \<Rightarrow>
                   Inr (s1\<lparr>users := updateOne (userByName senderID)
                                      (\<lambda>u. u\<lparr>u_numGoals := u_numGoals result + 1\<rparr>) (users s1)\<rparr>,
                        out1 @ [TextMessage senderID ''What is the name of your goal?''])))"

definition sendMotivation :: "env \<Rightarrow> nat \<Rightarrow> store \<Rightarrow> error + (store \<times> reply list)" where
  "sendMotivation e senderID s =
     (case findOne (userByName senderID) (users s) of
        None \<Rightarrow> Inl TypeError
      | Some result \<Rightarrow>
          (case feed e (u_lastPicTime result) of
             None \<Rightarrow> Inr (s, [HomeMenu senderID])
           | Some (index, name, url) \<Rightarrow>
               Inr (s\<lparr>users := updateOne (userByName senderID)
                                 (\<lambda>u. u\<lparr>u_lastPicTime := index + 1\<rparr>) (users s)\<rparr>,
                    [TextMessage senderID (substring 7 (int (length name)) name),
                     ImageMessage senderID (Some url)])))"

definition logEntry :: "clock \<Rightarrow> string \<Rightarrow> string" where
  "logEntry d txt = String_of (getMonth d) @ ''/'' @ String_of (getDate d) @ '' '' @ txt"

definition logGoal :: "env \<Rightarrow> nat \<Rightarrow> string \<Rightarrow> string \<Rightarrow> store \<Rightarrow> error + (store \<times> reply list)" where
  "logGoal e senderID gid txt s =
     (if length txt > 96
      then Inr (s, [TextMessage senderID ''That goal log is too long. Try another log.''])
      else
        (case findOne (goalById gid) (goals s) of
           None \<Rightarrow> Inl TypeError
         | Some result \<Rightarrow>
             (let oldLog = logEntry (now e) txt # g_log result;
                  s1 = s\<lparr>goals := updateOne (goalById gid) (\<lambda>g. g\<lparr>g_log := oldLog\<rparr>) (goals s)\<rparr>;
                  s2 = s1\<lparr>users := updateOne (userByName senderID) (\<lambda>u. u\<lparr>u_status := ''null''\<rparr>) (users s1)\<rparr>
              in case sendMotivation e senderID s2 of
                   Inl x \<Rightarrow> Inl x
                 | Inr (s3, out) \<Rightarrow>
                     Inr (s3, TextMessage senderID
                       ''Log Added! Great job today! Here's your daily dose of motivation from /r/GetMotivated:'' # out))))"

section \<open>Listing goals\<close>

definition sendList :: "nat \<Rightarrow> goal list \<Rightarrow> string \<Rightarrow> store \<Rightarrow> error + (store \<times> reply list)" where
  "sendList senderID result type s =
     (if type = ''view''
      then (case findOne (userByName senderID) (users s) of
              None \<Rightarrow> Inl TypeError
            | Some u \<Rightarrow> Inr (s, [GoalList senderID type result (u_finished u \<noteq> [])]))
      else Inr (s, [GoalList senderID type result False]))"

text \<open>The loop of \<open>getList\<close> over the goals found, one \<open>streakProcess\<close> in view mode each.\<close>

fun streakAll :: "clock \<Rightarrow> clock \<Rightarrow> goal list \<Rightarrow> store \<Rightarrow> error + store" where
  "streakAll d d' [] s = Inr s"
| "streakAll d d' (g # gs) s =
     (case streakProcess d d' (g_id g) ''view'' s of
        Inl x \<Rightarrow> Inl x
      | Inr s1 \<Rightarrow> streakAll d d' gs s1)"

definition getList :: "env \<Rightarrow> nat \<Rightarrow> string \<Rightarrow> store \<Rightarrow> error + (store \<times> reply list)" where
  "getList e senderID type s =
     (let result = filter (\<lambda>g. g_user g = senderID) (goals s)
      in if result = []
         then Inr (s, [TextMessage senderID ''No goals yet, start one from home!'', HomeMenu senderID])
         else
           (case streakAll (now e) (later e) result s of
              Inl x \<Rightarrow> Inl x
            | Inr s1 \<Rightarrow>
                (let result2 = filter (\<lambda>g. g_user g = senderID) (goals s1)
                 in if result2 = []
                    then Inr (s1, [TextMessage senderID ''No goals yet, start one from home!'', HomeMenu senderID])
                    else sendList senderID result2 type s1)))"

definition sendConfirm :: "nat \<Rightarrow> string \<Rightarrow> store \<Rightarrow> error + (store \<times> reply list)" where
  "sendConfirm senderID gid s =
     (case findOne (goalById gid) (goals s) of
        None \<Rightarrow> Inl TypeError
      | Some result \<Rightarrow> Inr (s, [Confirm senderID (g_name result) (''yes  '' @ gid)]))"

definition sendConfirmFinish :: "nat \<Rightarrow> string \<Rightarrow> store \<Rightarrow> error + (store \<times> reply list)" where
  "sendConfirmFinish senderID gid s =
     (case findOne (goalById gid) (goals s) of
        None \<Rightarrow> Inl TypeError
      | Some result \<Rightarrow> Inr (s, [ConfirmFinish senderID (g_name result) (''yef  '' @ gid)]))"

section \<open>The message handler\<close>

definition newUser :: "env \<Rightarrow> nat \<Rightarrow> user" where
  "newUser e senderID =
     \<lparr>u_id = fresh e, u_name = senderID, u_status = ''null'', u_numGoals = 0, u_finished = [],
      u_lastPicTime = 0, u_log = None\<rparr>"

text \<open>The branch of the quick reply \<open>yes\<close>: deleting a goal.\<close>

definition deleteConfirmed :: "env \<Rightarrow> nat \<Rightarrow> string \<Rightarrow> store \<Rightarrow> error + (store \<times> reply list)" where
  "deleteConfirmed e senderID gid s =
     (if \<not> removeErr e
      then
        (let s1 = s\<lparr>goals := remove (goalById gid) (goals s)\<rparr>
         in case findOne (userByName senderID) (users s1) of
              None \<Rightarrow> Inl TypeError
            | Some result \<Rightarrow>
                Inr (s1\<lparr>users := updateOne (userByName senderID)
                                   (\<lambda>u. u\<lparr>u_numGoals := u_numGoals result - 1\<rparr>) (users s1)\<rparr>,
                     [TextMessage senderID ''Goal deleted! Going to home...'', HomeMenu senderID]))
      else Inr (s, [TextMessage senderID
                  ''There was an error deleting your goal, please try again, going to home...'',
                  HomeMenu senderID]))"

text \<open>The branch of the quick reply \<open>yef\<close>: finishing a goal. The list with the summary in
  front is written by \<open>User.update({"_id": ObjectId(id)}, {$set: {log: oldFin}})\<close>, where
  \<open>id\<close> is the goal's.\<close>

definition finishConfirmed :: "env \<Rightarrow> nat \<Rightarrow> string \<Rightarrow> store \<Rightarrow> error + (store \<times> reply list)" where
  "finishConfirmed e senderID gid s =
     (let found = findOne (goalById gid) (goals s)
      in case findOne (userByName senderID) (users s) of
           None \<Rightarrow> Inl TypeError
         | Some usr \<Rightarrow>
             (case found of
                None \<Rightarrow> Inl TypeError
              | Some goal \<Rightarrow>
                  (let oldFin = (g_name goal @ flame @ String_of (g_total goal)) # u_finished usr;
                       s1 = s\<lparr>users := updateOne (\<lambda>u. u_id u = gid)
                                         (\<lambda>u. u\<lparr>u_log := Some oldFin\<rparr>) (users s)\<rparr>
                   in if \<not> removeErr e
                      then
                        (let s2 = s1\<lparr>goals := remove (goalById gid) (goals s1)\<rparr>
                         in case findOne (userByName senderID) (users s2) of
                              None \<Rightarrow> Inl TypeError
                            | Some result \<Rightarrow>
                                Inr (s2\<lparr>users := updateOne (userByName senderID)
                                                   (\<lambda>u. u\<lparr>u_numGoals := u_numGoals result - 1\<rparr>) (users s2)\<rparr>,
                                     [TextMessage senderID (''CONGRATS on finishing your goal: '' @ g_name goal @
                                        ''! You did an absolutely fantastic job. :)'' @
                                        ''Your goal has been moved to the finished section View Goals. Going to home...''),
                                      HomeMenu senderID]))
                      else Inr (s1, [TextMessage senderID
                                  ''There was an error finishing your goal, please try again, going to home...'',
                                  HomeMenu senderID]))))"

text \<open>The quick replies. \<open>created\<close> is the user document that the first lookup of the handler
  is about to save; the status update of \<open>prog\<close> is issued before that save.\<close>

definition quickReply :: "env \<Rightarrow> nat \<Rightarrow> string \<Rightarrow> user list \<Rightarrow> store \<Rightarrow> error + (store \<times> reply list)" where
  "quickReply e senderID payload created s =
     (let s1 = s\<lparr>users := users s @ created\<rparr>;
          len = int (length payload)
      in if substring 0 4 payload = ''view'' then
           (case findOne (goalById (substring 5 len payload)) (goals s1) of
              None \<Rightarrow> Inl TypeError
            | Some result \<Rightarrow> Inr (s1, [GoalCard senderID result]))
         else if substring 0 4 payload = ''prog'' then
           (let gid = substring 5 len payload
            in case streakProcess (now e) (later e) gid ''prog'' s of
                 Inl x \<Rightarrow> Inl x
               | Inr s2 \<Rightarrow>
                   Inr (s2\<lparr>users := updateOne (userByName senderID)
                                      (\<lambda>u. u\<lparr>u_status := ''logging_goal'' @ gid\<rparr>) (users s2) @ created\<rparr>,
                        [TextMessage senderID ''Add a log message to your goal!'']))
         else if substring 0 4 payload = ''logs'' then
           (let stop = indexOf payload CHR ''!'';
                index = parseInt (substring 4 stop payload);
                gid = substring (stop + 1) len payload
            in case findOne (goalById gid) (goals s1) of
                 None \<Rightarrow> Inl TypeError
               | Some result \<Rightarrow> Inr (s1, [LogsPage senderID result index]))
         else if substring 0 4 payload = ''no  '' then
           Inr (s1, [TextMessage senderID ''Deleting canceled, going to home...'', HomeMenu senderID])
         else if substring 0 4 payload = ''nf  '' then
           Inr (s1, [TextMessage senderID ''Finishing canceled, going to home...'', HomeMenu senderID])
         else if substring 0 4 payload = ''yes '' then
           deleteConfirmed e senderID (substring 5 len payload) s1
         else if substring 0 4 payload = ''yef '' then
           finishConfirmed e senderID (substring 5 len payload) s1
         else if payload = ''home'' then Inr (s1, [HomeMenu senderID])
         else Inr (s1, []))"

text \<open>The dispatch on the stored status, for a text. \<open>result\<close> is the user the handler's
  second lookup found.\<close>

definition textMessage :: "env \<Rightarrow> nat \<Rightarrow> string \<Rightarrow> user \<Rightarrow> store \<Rightarrow> error + (store \<times> reply list)" where
  "textMessage e senderID messageText result s =
     (case (if u_status result = ''naming_goal'' then nameGoal e senderID messageText s
            else if substring 0 12 (u_status result) = ''logging_goal''
            then logGoal e senderID
                   (substring 12 (int (length (u_status result))) (u_status result)) messageText s
            else Inr (s, [])) of
        Inl x \<Rightarrow> Inl x
      | Inr (s1, out) \<Rightarrow>
          Inr (s1,
               (if u_status result = ''null''
                then [if messageText = ''image'' then ImageMessage senderID None
                      else if messageText = ''generic'' then GenericMessage senderID
                      else if messageText = ''test'' then TestMessage senderID
                      else HomeMenu senderID]
                else []) @ out))"

definition receivedMessage :: "env \<Rightarrow> nat \<Rightarrow> message \<Rightarrow> store \<Rightarrow> error + (store \<times> reply list)" where
  "receivedMessage e senderID m s =
     (let known = findOne (userByName senderID) (users s);
          created = (if known = None then [newUser e senderID] else []);
          welcome = (if known = None
                     then [TextMessage senderID ''Welcome, here is the home screen:'', HomeMenu senderID]
                     else []);
          s1 = s\<lparr>users := users s @ created\<rparr>
      in if m_is_echo m then Inr (s1, welcome)
         else
           (case m_quick_reply m of
              Some payload \<Rightarrow>
                (case quickReply e senderID payload created s of
                   Inl x \<Rightarrow> Inl x
                 | Inr (s2, out) \<Rightarrow> Inr (s2, out @ welcome))
            | None \<Rightarrow>
                (case m_text m of
                   None \<Rightarrow> Inr (s1, HomeMenu senderID # welcome)
                 | Some messageText0 \<Rightarrow>
                     if messageText0 = [] then Inr (s1, HomeMenu senderID # welcome)
                     else
                       (case known of
                          None \<Rightarrow> Inr (s1, welcome)
                        | Some result \<Rightarrow> textMessage e senderID (toLowerCase messageText0) result s1))))"

section \<open>The postback handler\<close>

text \<open>A user document has the properties \<open>_id\<close>, \<open>name\<close>, \<open>status\<close>, \<open>numGoals\<close>,
  \<open>finished\<close> and \<open>lastPicTime\<close>: reading \<open>result.length\<close> on it gives \<open>undefined\<close>.\<close>

definition userLength :: "user \<Rightarrow> int option" where
  "userLength result = None"

text \<open>The loop \<open>for (var i = 0; i < result.length; i++)\<close> of the finished list. A comparison
  with \<open>undefined\<close> is false; an index beyond the array reads \<open>undefined\<close>.\<close>

function finishedLoop :: "int option \<Rightarrow> string list \<Rightarrow> nat \<Rightarrow> string \<Rightarrow> string" where
  "finishedLoop None rv i msg = msg"
| "finishedLoop (Some n) rv i msg =
     (if int i < n
      then finishedLoop (Some n) rv (i + 1)
             (msg @ String_of (int i + 1) @ ''. '' @
              (if i < length rv then rv ! i else ''undefined'') @ newline)
      else msg)"
  by pat_completeness auto
termination
  by (relation "measure (\<lambda>(b, rv, i, msg). case b of None \<Rightarrow> 0 | Some n \<Rightarrow> nat (n - int i))") auto

declare finishedLoop.simps(2) [simp del]

definition receivedPostback :: "env \<Rightarrow> nat \<Rightarrow> string \<Rightarrow> store \<Rightarrow> error + (store \<times> reply list)" where
  "receivedPostback e senderID payload s =
     (let len = int (length payload)
      in if payload = ''Payload new goal'' then makeGoal senderID s
         else if payload = ''Payload view'' then getList e senderID ''view'' s
         else if payload = ''Payload progress'' then getList e senderID ''prog'' s
         else if substring 0 4 payload = ''logs'' then
           (case findOne (goalById (substring 5 len payload)) (goals s) of
              None \<Rightarrow> Inl TypeError
            | Some result \<Rightarrow> Inr (s, [LogsPage senderID result (Some 0)]))
         else if substring 0 4 payload = ''dele'' then sendConfirm senderID (substring 5 len payload) s
         else if substring 0 6 payload = ''finish'' then sendConfirmFinish senderID (substring 7 len payload) s
         else if payload = ''Payload start'' then
           Inr (s, [TextMessage senderID
                  ''Welcome to Goalt, your own goal tracker. Click on New Goal to start. Continue to add progress to achieve your goals!'',
                  HomeMenu senderID])
         else if payload = ''Payload finished'' then
           (case findOne (userByName senderID) (users s) of
              None \<Rightarrow> Inl TypeError
            | Some result \<Rightarrow>
                (let message = ''Here are your finished goals:'' @ newline;
                     rv = rev (u_finished result)
                 in Inr (s, [HomeMessage senderID (finishedLoop (userLength result) rv 0 message)])))
         else Inr (s, []))"

section \<open>Sequences of events\<close>

definition handle :: "env \<Rightarrow> event \<Rightarrow> store \<Rightarrow> error + (store \<times> reply list)" where
  "handle e ev s =
     (case ev of
        MessageEvent senderID m \<Rightarrow> receivedMessage e senderID m s
      | PostbackEvent senderID payload \<Rightarrow> receivedPostback e senderID payload s)"

fun run :: "(env \<times> event) list \<Rightarrow> store \<Rightarrow> error + store" where
  "run [] s = Inr s"
| "run ((e, ev) # evs) s =
     (case handle e ev s of
        Inl x \<Rightarrow> Inl x
      | Inr (s1, out) \<Rightarrow> run evs s1)"

section \<open>Example data\<close>

text \<open>Clock readings of a Monday morning, of the same Monday an hour later and of the Tuesday
  after it, a goal last updated on that Monday, and its owner.\<close>

definition ex_monday :: clock where
  "ex_monday = \<lparr>getTime = 1478509200000, getDay = 1, getMonth = 10, getDate = 7\<rparr>"

definition ex_monday_later :: clock where
  "ex_monday_later = \<lparr>getTime = 1478512800000, getDay = 1, getMonth = 10, getDate = 7\<rparr>"

definition ex_tuesday :: clock where
  "ex_tuesday = \<lparr>getTime = 1478595600000, getDay = 2, getMonth = 10, getDate = 8\<rparr>"

definition ex_goal :: goal where
  "ex_goal = \<lparr>g_id = ''g1'', g_user = 1, g_name = ''Run'', g_streak = 2, g_log = [''10/7 ran 5k''],
              g_lastUpdate = 1478509200000, g_lastDay = 1, g_total = 4\<rparr>"

definition ex_user :: user where
  "ex_user = \<lparr>u_id = ''u1'', u_name = 1, u_status = ''null'', u_numGoals = 1,
              u_finished = [''Swim'' @ flame @ ''3''], u_lastPicTime = 0, u_log = None\<rparr>"

definition ex_store :: store where
  "ex_store = \<lparr>users = [ex_user], goals = [ex_goal]\<rparr>"

definition ex_env :: "clock \<Rightarrow> string \<Rightarrow> env" where
  "ex_env d i = \<lparr>now = d, later = d, fresh = i, removeErr = False, feed = Map.empty\<rparr>"

definition ex_text :: "string \<Rightarrow> message" where
  "ex_text t = \<lparr>m_is_echo = False, m_text = Some t, m_quick_reply = None\<rparr>"

definition ex_quick :: "string \<Rightarrow> message" where
  "ex_quick payload = \<lparr>m_is_echo = False, m_text = None, m_quick_reply = Some payload\<rparr>"

definition ex_empty :: store where
  "ex_empty = \<lparr>users = [], goals = []\<rparr>"

text \<open>The owner of \<open>ex_goal\<close> after the quick reply \<open>prog g1\<close>.\<close>

definition ex_logging_store :: store where
  "ex_logging_store = \<lparr>users = [ex_user\<lparr>u_status := ''logging_goalg1''\<rparr>], goals = [ex_goal]\<rparr>"

text \<open>A first contact, then the creation of a goal named \<open>run\<close>, which the store files
  under \<open>g1\<close>.\<close>

definition ex_first_goal :: "(env \<times> event) list" where
  "ex_first_goal =
     [(ex_env ex_monday ''u1'', MessageEvent 1 (ex_text ''hi'')),
      (ex_env ex_monday ''-'', PostbackEvent 1 ''Payload new goal''),
      (ex_env ex_monday ''g1'', MessageEvent 1 (ex_text ''run''))]"

text \<open>Four goals, a fifth name that repeats the fourth, then two new names.\<close>

definition ex_six_goals :: "(env \<times> event) list" where
  "ex_six_goals = ex_first_goal @
     [(ex_env ex_monday ''-'', PostbackEvent 1 ''Payload new goal''),
      (ex_env ex_monday ''g2'', MessageEvent 1 (ex_text ''swim'')),
      (ex_env ex_monday ''-'', PostbackEvent 1 ''Payload new goal''),
      (ex_env ex_monday ''g3'', MessageEvent 1 (ex_text ''read'')),
      (ex_env ex_monday ''-'', PostbackEvent 1 ''Payload new goal''),
      (ex_env ex_monday ''g4'', MessageEvent 1 (ex_text ''cook'')),
      (ex_env ex_monday ''-'', PostbackEvent 1 ''Payload new goal''),
      (ex_env ex_monday ''-'', MessageEvent 1 (ex_text ''Cook'')),
      (ex_env ex_monday ''g5'', MessageEvent 1 (ex_text ''draw'')),
      (ex_env ex_monday ''-'', PostbackEvent 1 ''Payload new goal''),
      (ex_env ex_monday ''g6'', MessageEvent 1 (ex_text ''sing''))]"

text \<open>The same creation followed by a second \<open>New Goal\<close>: the owner is asked for a name
  again.\<close>

definition ex_naming :: "(env \<times> event) list" where
  "ex_naming = ex_first_goal @ [(ex_env ex_monday ''-'', PostbackEvent 1 ''Payload new goal'')]"

definition ex_confirm_delete :: "env \<times> event" where
  "ex_confirm_delete = (ex_env ex_tuesday ''-'', MessageEvent 1 (ex_quick ''yes  g1''))"

definition ex_confirm_finish :: "env \<times> event" where
  "ex_confirm_finish = (ex_env ex_tuesday ''-'', MessageEvent 1 (ex_quick ''yef  g1''))"

text \<open>On \<open>ex_store\<close>: the list of goals for adding progress, the choice of \<open>g1\<close>, a log
  text.\<close>

definition ex_view_then_progress :: "(env \<times> event) list" where
  "ex_view_then_progress =
     [(ex_env ex_tuesday ''-'', PostbackEvent 1 ''Payload progress''),
      (ex_env ex_tuesday ''-'', MessageEvent 1 (ex_quick ''prog g1'')),
      (ex_env ex_tuesday ''-'', MessageEvent 1 (ex_text ''Ran 5k''))]"

text \<open>What is read off a store after a run: the names of a user's live goals, and the goal
  counts of the users.\<close>

definition liveGoals :: "nat \<Rightarrow> error + store \<Rightarrow> error + string list" where
  "liveGoals senderID r = map_sum id (\<lambda>s. map g_name (filter (\<lambda>g. g_user g = senderID) (goals s))) r"

definition goalCounts :: "error + store \<Rightarrow> error + int list" where
  "goalCounts r = map_sum id (\<lambda>s. map u_numGoals (users s)) r"

section \<open>The text event of the logging state, as the specification words it\<close>

text \<open>The specification's row for a text in the state \<open>LoggingProgress(X)\<close>: validate the
  length, invoke the streak engine in progress mode on X, add the log entry, send the motivation,
  go to \<open>Idle\<close>. This definition follows those words; it is compared with the code's
  \<open>receivedMessage\<close> below.\<close>

definition loggingText_spec :: "env \<Rightarrow> nat \<Rightarrow> string \<Rightarrow> string \<Rightarrow> store \<Rightarrow> error + (store \<times> reply list)" where
  "loggingText_spec e senderID gid txt s =
     (if length txt > 96
      then Inr (s, [TextMessage senderID ''That goal log is too long. Try another log.''])
      else (case streakProcess (now e) (later e) gid ''prog'' s of
              Inl x \<Rightarrow> Inl x
            | Inr s1 \<Rightarrow> logGoal e senderID gid txt s1))"

text \<open>The totals of the stored goals after a handler has run.\<close>

definition totalsAfter :: "error + (store \<times> reply list) \<Rightarrow> error + int list" where
  "totalsAfter r = map_sum id (map g_total \<circ> goals \<circ> fst) r"

section \<open>The invariant of the counters\<close>

definition goalOk :: "goal \<Rightarrow> bool" where
  "goalOk g = (0 \<le> g_streak g \<and> 0 \<le> g_total g)"

definition goalsOk :: "store \<Rightarrow> bool" where
  "goalsOk s = list_all goalOk (goals s)"

section \<open>Facts about the collection operations\<close>

lemma findOne_updateOne:
  "(\<And>x. P x \<Longrightarrow> P (f x)) \<Longrightarrow> findOne P (updateOne P f xs) = map_option f (findOne P xs)"
  by (induction xs) auto

lemma updateOne_twice:
  "(\<And>x. P x \<Longrightarrow> P (f x)) \<Longrightarrow> updateOne P g (updateOne P f xs) = updateOne P (g \<circ> f) xs"
  by (induction xs) auto

lemma goalById_streak [simp]: "goalById gid (g\<lparr>g_streak := v\<rparr>) = goalById gid g"
  by (simp add: goalById_def)

lemma goalById_prog [simp]:
  "goalById gid (g\<lparr>g_streak := a, g_lastUpdate := b, g_lastDay := c, g_total := d\<rparr>) = goalById gid g"
  by (simp add: goalById_def)

lemma goalById_log [simp]: "goalById gid (g\<lparr>g_log := v\<rparr>) = goalById gid g"
  by (simp add: goalById_def)

lemma findOne_goal_updateOne:
  "(\<And>g. g_id (f g) = g_id g) \<Longrightarrow>
   findOne (goalById gid) (updateOne (goalById gid) f xs) = map_option f (findOne (goalById gid) xs)"
  by (rule findOne_updateOne) (simp add: goalById_def)

text \<open>What \<open>streakProcess\<close> leaves under the identifier, for each decision and each mode.\<close>

lemma streakProcess_view:
  assumes "findOne (goalById gid) (goals s) = Some goal"
  shows "streakProcess d d' gid ''view'' s =
           Inr (if streak d' goal = ''reset''
                then s\<lparr>goals := updateOne (goalById gid) (\<lambda>g. g\<lparr>g_streak := 0\<rparr>) (goals s)\<rparr>
                else s)"
  using assms by (simp add: streakProcess_def newStreak_def Let_def)

lemma streakProcess_prog:
  assumes "findOne (goalById gid) (goals s) = Some goal"
  shows "streakProcess d d' gid ''prog'' s =
           Inr (s\<lparr>goals := updateOne (goalById gid)
                  (\<lambda>g. g\<lparr>g_streak := newStreak (streak d' goal) 1 goal,
                         g_lastUpdate := of_int (getTime d), g_lastDay := getDay d,
                         g_total := g_total goal + 1\<rparr>) (goals s)\<rparr>)"
  using assms by (simp add: streakProcess_def Let_def updateOne_twice comp_def)

lemma streakProcess_prog_found:
  assumes "findOne (goalById gid) (goals s) = Some goal"
  shows "\<exists>s'. streakProcess d d' gid ''prog'' s = Inr s' \<and> users s' = users s \<and>
              findOne (goalById gid) (goals s') =
                Some (goal\<lparr>g_streak := newStreak (streak d' goal) 1 goal,
                          g_lastUpdate := of_int (getTime d), g_lastDay := getDay d,
                          g_total := g_total goal + 1\<rparr>)"
  using assms by (simp add: streakProcess_prog [OF assms] findOne_goal_updateOne)

lemma streakProcess_view_found:
  assumes "findOne (goalById gid) (goals s) = Some goal"
  shows "\<exists>s'. streakProcess d d' gid ''view'' s = Inr s' \<and> users s' = users s \<and>
              (streak d' goal \<noteq> ''reset'' \<longrightarrow> s' = s) \<and>
              findOne (goalById gid) (goals s') =
                Some (if streak d' goal = ''reset'' then goal\<lparr>g_streak := 0\<rparr> else goal)"
  using assms by (simp add: streakProcess_view [OF assms] findOne_goal_updateOne)

section \<open>Every handler keeps the counters non-negative\<close>

lemma list_all_updateOne:
  "list_all Q xs \<Longrightarrow> (\<And>x. Q (f x)) \<Longrightarrow> list_all Q (updateOne P f xs)"
  by (induction xs) auto

lemma list_all_updateOne_pres:
  "list_all Q xs \<Longrightarrow> (\<And>x. Q x \<Longrightarrow> Q (f x)) \<Longrightarrow> list_all Q (updateOne P f xs)"
  by (induction xs) auto

lemma list_all_remove: "list_all Q xs \<Longrightarrow> list_all Q (remove P xs)"
  by (induction xs) (auto simp: remove_def)

lemma findOne_Some_list_all: "findOne P xs = Some x \<Longrightarrow> list_all Q xs \<Longrightarrow> Q x"
  by (induction xs) (auto split: if_splits)

lemma newStreak_nonneg: "0 \<le> g_streak g \<Longrightarrow> 0 \<le> inc \<Longrightarrow> 0 \<le> newStreak res inc g"
  by (auto simp: newStreak_def)

lemma streakProcess_other:
  assumes "findOne (goalById gid) (goals s) = Some goal" and "type \<noteq> ''prog''"
  shows "streakProcess d d' gid type s =
           Inr (if streak d' goal = ''reset''
                then s\<lparr>goals := updateOne (goalById gid) (\<lambda>g. g\<lparr>g_streak := 0\<rparr>) (goals s)\<rparr>
                else s)"
  using assms by (simp add: streakProcess_def newStreak_def Let_def)

lemma streakProcess_ok:
  assumes "goalsOk s" and "streakProcess d d' gid type s = Inr s'"
  shows "goalsOk s'"
proof (cases "findOne (goalById gid) (goals s)")
  case None
  with assms(2) show ?thesis by (simp add: streakProcess_def)
next
  case (Some result)
  have ok: "goalOk result"
    using findOne_Some_list_all [OF Some] assms(1) by (simp add: goalsOk_def)
  show ?thesis
  proof (cases "type = ''prog''")
    case True
    have "0 \<le> newStreak (streak d' result) 1 result" "0 \<le> g_total result + 1"
      using ok by (simp_all add: newStreak_nonneg goalOk_def)
    then have "list_all goalOk (updateOne (goalById gid)
             (\<lambda>g. g\<lparr>g_streak := newStreak (streak d' result) 1 result,
                    g_lastUpdate := of_int (getTime d), g_lastDay := getDay d,
                    g_total := g_total result + 1\<rparr>) (goals s))"
      using assms(1) by (intro list_all_updateOne) (simp_all add: goalOk_def goalsOk_def)
    with assms(2) True show ?thesis
      by (auto simp: streakProcess_prog [OF Some] goalsOk_def)
  next
    case False
    have "list_all goalOk (updateOne (goalById gid) (\<lambda>g. g\<lparr>g_streak := 0\<rparr>) (goals s))"
      using assms(1) by (intro list_all_updateOne_pres) (simp_all add: goalOk_def goalsOk_def)
    with assms False show ?thesis
      by (auto simp: streakProcess_other [OF Some False] goalsOk_def split: if_splits)
  qed
qed

lemma streakAll_ok:
  "goalsOk s \<Longrightarrow> streakAll d d' gs s = Inr s' \<Longrightarrow> goalsOk s'"
proof (induction gs arbitrary: s)
  case Nil
  then show ?case by simp
next
  case (Cons g gs)
  then show ?case
    by (auto split: sum.splits dest: streakProcess_ok)
qed

lemma sendList_goals: "sendList senderID result type s = Inr (s', out) \<Longrightarrow> s' = s"
  by (auto simp: sendList_def split: if_splits option.splits)

lemma getList_ok:
  "goalsOk s \<Longrightarrow> getList e senderID type s = Inr (s', out) \<Longrightarrow> goalsOk s'"
  by (auto simp: getList_def Let_def split: if_splits sum.splits dest: streakAll_ok sendList_goals)

lemma makeGoal_goals: "makeGoal senderID s = Inr (s', out) \<Longrightarrow> goals s' = goals s"
  by (auto simp: makeGoal_def split: if_splits option.splits)

lemma nameGoal_ok:
  "goalsOk s \<Longrightarrow> nameGoal e senderID t s = Inr (s', out) \<Longrightarrow> goalsOk s'"
  by (auto simp: nameGoal_def Let_def goalsOk_def goalOk_def newGoal_def
           split: if_splits option.splits)

lemma sendMotivation_goals: "sendMotivation e senderID s = Inr (s', out) \<Longrightarrow> goals s' = goals s"
  by (auto simp: sendMotivation_def split: option.splits)

lemma logGoal_ok:
  "goalsOk s \<Longrightarrow> logGoal e senderID gid t s = Inr (s', out) \<Longrightarrow> goalsOk s'"
  by (auto simp: logGoal_def Let_def goalsOk_def goalOk_def
           split: if_splits option.splits sum.splits
           dest!: sendMotivation_goals intro!: list_all_updateOne_pres)

lemma deleteConfirmed_ok:
  "deleteConfirmed e senderID gid s = Inr (s', out) \<Longrightarrow> goalsOk s \<Longrightarrow> goalsOk s'"
  by (auto simp: deleteConfirmed_def Let_def goalsOk_def
           split: if_splits option.splits intro: list_all_remove)

lemma finishConfirmed_ok:
  "finishConfirmed e senderID gid s = Inr (s', out) \<Longrightarrow> goalsOk s \<Longrightarrow> goalsOk s'"
  by (auto simp: finishConfirmed_def Let_def goalsOk_def
           split: if_splits option.splits intro: list_all_remove)

lemma goalsOk_users [simp]: "goalsOk (s\<lparr>users := us\<rparr>) = goalsOk s"
  by (simp add: goalsOk_def)

lemma quickReply_ok:
  "goalsOk s \<Longrightarrow> quickReply e senderID payload created s = Inr (s', out) \<Longrightarrow> goalsOk s'"
  by (auto simp: quickReply_def Let_def
           split: if_splits option.splits sum.splits
           dest: streakProcess_ok deleteConfirmed_ok finishConfirmed_ok)

lemma textMessage_ok:
  "goalsOk s \<Longrightarrow> textMessage e senderID t result s = Inr (s', out) \<Longrightarrow> goalsOk s'"
  by (auto simp: textMessage_def split: if_splits sum.splits dest: nameGoal_ok logGoal_ok)

lemma receivedMessage_ok:
  "goalsOk s \<Longrightarrow> receivedMessage e senderID m s = Inr (s', out) \<Longrightarrow> goalsOk s'"
  by (auto simp: receivedMessage_def Let_def
           split: if_splits option.splits sum.splits dest: quickReply_ok textMessage_ok)

lemma receivedPostback_ok:
  "goalsOk s \<Longrightarrow> receivedPostback e senderID payload s = Inr (s', out) \<Longrightarrow> goalsOk s'"
  by (auto simp: receivedPostback_def Let_def sendConfirm_def sendConfirmFinish_def goalsOk_def
           split: if_splits option.splits dest: getList_ok [unfolded goalsOk_def] makeGoal_goals)

lemma handle_ok:
  "goalsOk s \<Longrightarrow> handle e ev s = Inr (s', out) \<Longrightarrow> goalsOk s'"
  by (auto simp: handle_def split: event.splits dest: receivedMessage_ok receivedPostback_ok)

lemma run_ok: "goalsOk s \<Longrightarrow> run evs s = Inr s' \<Longrightarrow> goalsOk s'"
proof (induction evs arbitrary: s)
  case Nil
  then show ?case by simp
next
  case (Cons a evs)
  obtain e ev where a: "a = (e, ev)" by (cases a)
  from Cons.prems a obtain s1 out where h: "handle e ev s = Inr (s1, out)" "run evs s1 = Inr s'"
    by (auto split: sum.splits)
  from handle_ok [OF Cons.prems(1) h(1)] have "goalsOk s1" .
  from Cons.IH [OF this h(2)] show ?case .
qed


section \<open>Logging a text\<close>

lemma findOne_user_updateOne:
  "(\<And>u. u_name (f u) = u_name u) \<Longrightarrow>
   findOne (userByName n) (updateOne (userByName n) f xs) = map_option f (findOne (userByName n) xs)"
  by (rule findOne_updateOne) (simp add: userByName_def)

lemma logGoal_rejects:
  "length t > 96 \<Longrightarrow>
   logGoal e senderID gid t s = Inr (s, [TextMessage senderID ''That goal log is too long. Try another log.''])"
  by (simp add: logGoal_def)

lemma logGoal_accepts:
  assumes "findOne (goalById gid) (goals s) = Some goal"
    and "findOne (userByName senderID) (users s) = Some result"
    and "length t \<le> 96"
  shows "\<exists>s' out. logGoal e senderID gid t s = Inr (s', out) \<and>
           goals s' = updateOne (goalById gid) (\<lambda>g. g\<lparr>g_log := logEntry (now e) t # g_log goal\<rparr>) (goals s) \<and>
           map_option u_status (findOne (userByName senderID) (users s')) = Some ''null''"
proof (cases "feed e (u_lastPicTime result)")
  case None
  with assms show ?thesis
    by (simp add: logGoal_def sendMotivation_def Let_def findOne_user_updateOne)
next
  case (Some a)
  obtain index name url where "a = (index, name, url)" by (cases a)
  with Some assms show ?thesis
    by (simp add: logGoal_def sendMotivation_def Let_def findOne_user_updateOne)
qed

section \<open>The goal count and the finished list, in general\<close>

text \<open>At the cap \<open>makeGoal\<close> changes nothing and a name of more than 100 characters is
  turned down with no change; a name that is taken still raises the count; a confirmed deletion
  that finds no goal still lowers it; a confirmed finish leaves every \<open>finished\<close> list as it
  was.\<close>

lemma map_updateOne:
  "(\<And>x. h (f x) = h x) \<Longrightarrow> map h (updateOne P f xs) = map h xs"
  by (induction xs) auto

lemma finishConfirmed_finished:
  "finishConfirmed e senderID gid s = Inr (s', out) \<Longrightarrow>
   map u_finished (users s') = map u_finished (users s)"
  by (auto simp: finishConfirmed_def Let_def map_updateOne split: option.splits if_splits)

lemma remove_missing: "findOne P xs = None \<Longrightarrow> remove P xs = xs"
  by (induction xs) (auto simp: remove_def split: if_splits)

lemma deleteConfirmed_missing:
  assumes "findOne (goalById gid) (goals s) = None"
    and "findOne (userByName senderID) (users s) = Some result"
    and "\<not> removeErr e"
  shows "deleteConfirmed e senderID gid s =
           Inr (s\<lparr>users := updateOne (userByName senderID)
                    (\<lambda>u. u\<lparr>u_numGoals := u_numGoals result - 1\<rparr>) (users s)\<rparr>,
                [TextMessage senderID ''Goal deleted! Going to home...'', HomeMenu senderID])"
  using assms by (simp add: deleteConfirmed_def Let_def remove_missing)

lemma nameGoal_duplicate:
  assumes "findOne (\<lambda>g. g_user g = senderID \<and> g_name g = capitalize t) (goals s) = Some found"
    and "findOne (userByName senderID) (users s) = Some result"
    and "length t \<le> 100"
  shows "nameGoal e senderID t s =
           Inr (s\<lparr>users := updateOne (userByName senderID)
                    (\<lambda>u. u\<lparr>u_numGoals := u_numGoals result + 1\<rparr>) (users s)\<rparr>,
                [TextMessage senderID ''Goal with that name has already been created. Try another name.'',
                 TextMessage senderID ''What is the name of your goal?''])"
proof -
  have "length (capitalize t) = length t"
    by (cases t) (simp_all add: capitalize_def)
  with assms show ?thesis
    by (simp add: nameGoal_def Let_def)
qed

lemma nameGoal_too_long:
  "length t > 100 \<Longrightarrow>
   nameGoal e senderID t s = Inr (s, [TextMessage senderID ''That goal name is too long. Try another name.''])"
proof -
  assume a: "length t > 100"
  have "length (capitalize t) = length t"
    by (cases t) (simp_all add: capitalize_def)
  with a show ?thesis
    by (simp add: nameGoal_def Let_def)
qed

lemma makeGoal_at_cap:
  "findOne (userByName senderID) (users s) = Some result \<Longrightarrow> u_numGoals result = 5 \<Longrightarrow>
   \<exists>out. makeGoal senderID s = Inr (s, out)"
  by (simp add: makeGoal_def)

section \<open>The streak engine: extend, hold, reset\<close>

text \<open>
  Claim C1. A goal is stored under \<open>gid\<close>, the day of the week read by \<open>streak\<close> is one more
  (or six less) than the stored \<open>lastDay\<close>, and the elapsed time \<open>streak\<close> computes,
  \<open>(time - lastUpdate) / 1000\<close>, is strictly below 172800. Then the decision is \<open>add\<close> and a
  progress event (\<open>type = "prog"\<close>, increment 1) stores the old streak plus 1.
\<close>

theorem C1_progress_extends_streak:
  assumes "findOne (goalById gid) (goals s) = Some goal"
    and "getDay d' - g_lastDay goal = 1 \<or> getDay d' - g_lastDay goal = - 6"
    and "(of_int (getTime d') - g_lastUpdate goal) / 1000 < 172800"
  shows "streak d' goal = ''add'' \<and>
         (\<exists>s'. streakProcess d d' gid ''prog'' s = Inr s' \<and>
               findOne (goalById gid) (goals s') =
                 Some (goal\<lparr>g_streak := g_streak goal + 1, g_lastUpdate := of_int (getTime d),
                           g_lastDay := getDay d, g_total := g_total goal + 1\<rparr>))"
proof -
  have add: "streak d' goal = ''add''"
    using assms(2,3) by (simp add: streak_def Let_def)
  have "newStreak (streak d' goal) 1 goal = g_streak goal + 1"
    by (simp add: add newStreak_def)
  with streakProcess_prog_found [OF assms(1), of d d'] add show ?thesis
    by auto
qed

theorem C1_progress_extends_streak_witness:
  "findOne (goalById ''g1'') (goals ex_store) = Some ex_goal \<and>
   (getDay ex_tuesday - g_lastDay ex_goal = 1 \<or> getDay ex_tuesday - g_lastDay ex_goal = - 6) \<and>
   (of_int (getTime ex_tuesday) - g_lastUpdate ex_goal) / 1000 < 172800 \<and>
   streak ex_tuesday ex_goal = ''add'' \<and>
   (\<exists>s'. streakProcess ex_tuesday ex_tuesday ''g1'' ''prog'' ex_store = Inr s' \<and>
         findOne (goalById ''g1'') (goals s') =
           Some (ex_goal\<lparr>g_streak := g_streak ex_goal + 1, g_lastUpdate := of_int (getTime ex_tuesday),
                        g_lastDay := getDay ex_tuesday, g_total := g_total ex_goal + 1\<rparr>))"
proof -
  have h1: "findOne (goalById ''g1'') (goals ex_store) = Some ex_goal"
    by (simp add: ex_store_def ex_goal_def goalById_def)
  have h2: "getDay ex_tuesday - g_lastDay ex_goal = 1 \<or> getDay ex_tuesday - g_lastDay ex_goal = - 6"
    by (simp add: ex_tuesday_def ex_goal_def)
  have h3: "(of_int (getTime ex_tuesday) - g_lastUpdate ex_goal) / 1000 < 172800"
    by (simp add: ex_tuesday_def ex_goal_def)
  from C1_progress_extends_streak [OF h1 h2 h3, of ex_tuesday] h1 h2 h3 show ?thesis
    by blast
qed

text \<open>
  Claim C2. When the day of the week read by \<open>streak\<close> equals the stored \<open>lastDay\<close>, the
  decision is \<open>keep\<close> and the new streak that \<open>streakProcess\<close> computes is the maximum of the
  increment and the old streak. A progress event stores it (1 on a goal whose streak is 0); a
  view writes nothing, so the stored streak is not lowered, and it is that maximum whenever the old
  streak is not negative.
\<close>

theorem C2_same_day_holds_streak:
  assumes "findOne (goalById gid) (goals s) = Some goal"
    and "getDay d' - g_lastDay goal = 0"
  shows "streak d' goal = ''keep'' \<and>
         newStreak (streak d' goal) inc goal = max inc (g_streak goal) \<and>
         (\<exists>s'. streakProcess d d' gid ''prog'' s = Inr s' \<and>
               map_option g_streak (findOne (goalById gid) (goals s')) = Some (max 1 (g_streak goal)) \<and>
               (g_streak goal = 0 \<longrightarrow> map_option g_streak (findOne (goalById gid) (goals s')) = Some 1)) \<and>
         streakProcess d d' gid ''view'' s = Inr s \<and>
         (0 \<le> g_streak goal \<longrightarrow>
            map_option g_streak (findOne (goalById gid) (goals s)) = Some (max 0 (g_streak goal)))"
proof -
  have keep: "streak d' goal = ''keep''"
    using assms(2) by (simp add: streak_def Let_def)
  have ns: "newStreak (streak d' goal) inc goal = max inc (g_streak goal)" for inc
    by (simp add: keep newStreak_def)
  have view: "streakProcess d d' gid ''view'' s = Inr s"
    by (simp add: streakProcess_view [OF assms(1)] keep)
  from streakProcess_prog_found [OF assms(1), of d d']
  obtain s' where s': "streakProcess d d' gid ''prog'' s = Inr s'"
    "findOne (goalById gid) (goals s') =
       Some (goal\<lparr>g_streak := newStreak (streak d' goal) 1 goal, g_lastUpdate := of_int (getTime d),
                 g_lastDay := getDay d, g_total := g_total goal + 1\<rparr>)"
    by blast
  have prog: "map_option g_streak (findOne (goalById gid) (goals s')) = Some (max 1 (g_streak goal))"
    by (simp add: s'(2) ns)
  show ?thesis
    using keep ns view s'(1) prog assms(1) by auto
qed

theorem C2_same_day_holds_streak_witness:
  "findOne (goalById ''g1'') (goals ex_store) = Some ex_goal \<and>
   getDay ex_monday_later - g_lastDay ex_goal = 0 \<and>
   streak ex_monday_later ex_goal = ''keep'' \<and>
   newStreak (streak ex_monday_later ex_goal) 1 ex_goal = max 1 (g_streak ex_goal) \<and>
   (\<exists>s'. streakProcess ex_monday_later ex_monday_later ''g1'' ''prog'' ex_store = Inr s' \<and>
         map_option g_streak (findOne (goalById ''g1'') (goals s')) = Some (max 1 (g_streak ex_goal))) \<and>
   streakProcess ex_monday_later ex_monday_later ''g1'' ''view'' ex_store = Inr ex_store \<and>
   0 \<le> g_streak ex_goal \<and>
   map_option g_streak (findOne (goalById ''g1'') (goals ex_store)) = Some (max 0 (g_streak ex_goal))"
proof -
  have h1: "findOne (goalById ''g1'') (goals ex_store) = Some ex_goal"
    by (simp add: ex_store_def ex_goal_def goalById_def)
  have h2: "getDay ex_monday_later - g_lastDay ex_goal = 0"
    by (simp add: ex_monday_later_def ex_goal_def)
  have h3: "0 \<le> g_streak ex_goal"
    by (simp add: ex_goal_def)
  from C2_same_day_holds_streak [OF h1 h2, of 1 ex_monday_later] h1 h2 h3 show ?thesis
    by blast
qed

text \<open>
  Claim C3. On a stored goal, a view event leaves the users and every field of the goal but the
  streak as they were; it writes the streak, as 0, only when the decision is \<open>reset\<close>, and
  writes nothing at all otherwise. A progress event stores the new streak, the clock read on
  entry as \<open>lastUpdate\<close> and \<open>lastDay\<close>, and the total plus 1.
\<close>

theorem C3_view_frame_progress_persists:
  assumes "findOne (goalById gid) (goals s) = Some goal"
  shows "(\<exists>s'. streakProcess d d' gid ''view'' s = Inr s' \<and> users s' = users s \<and>
               (streak d' goal \<noteq> ''reset'' \<longrightarrow> s' = s) \<and>
               findOne (goalById gid) (goals s') =
                 Some (if streak d' goal = ''reset'' then goal\<lparr>g_streak := 0\<rparr> else goal)) \<and>
         (\<exists>s'. streakProcess d d' gid ''prog'' s = Inr s' \<and> users s' = users s \<and>
               findOne (goalById gid) (goals s') =
                 Some (goal\<lparr>g_streak := newStreak (streak d' goal) 1 goal,
                           g_lastUpdate := of_int (getTime d), g_lastDay := getDay d,
                           g_total := g_total goal + 1\<rparr>))"
  using streakProcess_view_found [OF assms, of d d'] streakProcess_prog_found [OF assms, of d d']
  by blast

theorem C3_view_frame_progress_persists_witness:
  "findOne (goalById ''g1'') (goals ex_store) = Some ex_goal \<and>
   streak ex_monday ex_goal = ''keep'' \<and>
   (\<exists>s'. streakProcess ex_tuesday ex_monday ''g1'' ''view'' ex_store = Inr s' \<and>
         users s' = users ex_store \<and> s' = ex_store \<and>
         findOne (goalById ''g1'') (goals s') = Some ex_goal) \<and>
   (\<exists>s'. streakProcess ex_tuesday ex_monday ''g1'' ''prog'' ex_store = Inr s' \<and>
         users s' = users ex_store \<and>
         findOne (goalById ''g1'') (goals s') =
           Some (ex_goal\<lparr>g_streak := 2, g_lastUpdate := 1478595600000, g_lastDay := 2, g_total := 5\<rparr>))"
proof -
  have h1: "findOne (goalById ''g1'') (goals ex_store) = Some ex_goal"
    by (simp add: ex_store_def ex_goal_def goalById_def)
  have h2: "streak ex_monday ex_goal = ''keep''"
    by (simp add: streak_def ex_monday_def ex_goal_def)
  have h3: "newStreak ''keep'' 1 ex_goal = 2" "g_total ex_goal + 1 = 5"
    "getDay ex_tuesday = 2" "(of_int (getTime ex_tuesday) :: rat) = 1478595600000"
    by (simp_all add: newStreak_def ex_goal_def ex_tuesday_def)
  from C3_view_frame_progress_persists [OF h1, of ex_tuesday ex_monday] h1 h2 h3 show ?thesis
    by auto
qed

section \<open>The cap on live goals and the goal count\<close>

text \<open>
  Claim C4. \<open>makeGoal\<close> turns a new goal down only when the stored count equals 5, and
  \<open>nameGoal\<close> raises the count for every name of at most 100 characters, taken or not. From
  the empty store, the events \<open>ex_six_goals\<close> (four goals, a name that repeats the fourth, two
  more names) leave one user with six live goals and a count of 7.
\<close>

theorem C4_sixth_goal_created:
  "liveGoals 1 (run ex_six_goals ex_empty) =
     Inr [''Run'', ''Swim'', ''Read'', ''Cook'', ''Draw'', ''Sing''] \<and>
   goalCounts (run ex_six_goals ex_empty) = Inr [7]"
  by code_simp

text \<open>
  Claim C5. A user who owns the goal \<open>Run\<close> and is asked for a name sends \<open>Run\<close> again:
  the goal is not created and the status stays \<open>naming_goal\<close>, but the stored count goes
  from 1 to 2.
\<close>

theorem C5_duplicate_name_raises_count:
  "run ex_naming ex_empty =
     Inr \<lparr>users = [\<lparr>u_id = ''u1'', u_name = 1, u_status = ''naming_goal'', u_numGoals = 1,
                    u_finished = [], u_lastPicTime = 0, u_log = None\<rparr>],
          goals = [\<lparr>g_id = ''g1'', g_user = 1, g_name = ''Run'', g_streak = 0, g_log = [],
                    g_lastUpdate = 1478509200, g_lastDay = 1, g_total = 0\<rparr>]\<rparr> \<and>
   run (ex_naming @ [(ex_env ex_monday ''g2'', MessageEvent 1 (ex_text ''Run''))]) ex_empty =
     Inr \<lparr>users = [\<lparr>u_id = ''u1'', u_name = 1, u_status = ''naming_goal'', u_numGoals = 2,
                    u_finished = [], u_lastPicTime = 0, u_log = None\<rparr>],
          goals = [\<lparr>g_id = ''g1'', g_user = 1, g_name = ''Run'', g_streak = 0, g_log = [],
                    g_lastUpdate = 1478509200, g_lastDay = 1, g_total = 0\<rparr>]\<rparr>"
  by code_simp

section \<open>Finishing and deleting\<close>

text \<open>
  Claim C6. The owner of the only goal \<open>g1\<close> confirms its finish. The goal is removed and
  the count goes from 1 to 0, but the owner's \<open>finished\<close> list is still empty: the list with
  the summary in front was written to the field \<open>log\<close> of a user whose \<open>_id\<close> is the
  goal's, and there is none.
\<close>

theorem C6_finish_loses_summary:
  "run (ex_first_goal @ [ex_confirm_finish]) ex_empty =
     Inr \<lparr>users = [\<lparr>u_id = ''u1'', u_name = 1, u_status = ''null'', u_numGoals = 0,
                    u_finished = [], u_lastPicTime = 0, u_log = None\<rparr>],
          goals = []\<rparr>"
  by code_simp

text \<open>
  Claim C7. The owner of the only goal \<open>g1\<close> confirms its deletion twice. Neither event
  fails, the second finds no goal to remove, and the count goes from 1 to 0 and then to -1.
\<close>

theorem C7_second_delete_lowers_count:
  "goalCounts (run ex_first_goal ex_empty) = Inr [1] \<and>
   goalCounts (run (ex_first_goal @ [ex_confirm_delete]) ex_empty) = Inr [0] \<and>
   run (ex_first_goal @ [ex_confirm_delete, ex_confirm_delete]) ex_empty =
     Inr \<lparr>users = [\<lparr>u_id = ''u1'', u_name = 1, u_status = ''null'', u_numGoals = - 1,
                    u_finished = [], u_lastPicTime = 0, u_log = None\<rparr>],
          goals = []\<rparr>"
  by code_simp

section \<open>A text in the logging state\<close>

text \<open>
  Claim C8, as stated, at a concrete input. The user of \<open>ex_logging_store\<close> is logging
  progress on \<open>g1\<close>, whose total is 4, and sends a text on the Tuesday. The handler leaves the
  total at 4; the sequence the claim describes, with the streak engine in progress mode between
  the validation and the log entry, gives 5.
\<close>

theorem C8_text_skips_streak_engine:
  "totalsAfter (receivedMessage (ex_env ex_tuesday ''-'') 1 (ex_text ''Ran 5k'') ex_logging_store) = Inr [4] \<and>
   totalsAfter (loggingText_spec (ex_env ex_tuesday ''-'') 1 ''g1'' ''ran 5k'' ex_logging_store) = Inr [5] \<and>
   receivedMessage (ex_env ex_tuesday ''-'') 1 (ex_text ''Ran 5k'') ex_logging_store \<noteq>
     loggingText_spec (ex_env ex_tuesday ''-'') 1 ''g1'' ''ran 5k'' ex_logging_store"
proof -
  have a: "totalsAfter (receivedMessage (ex_env ex_tuesday ''-'') 1 (ex_text ''Ran 5k'') ex_logging_store) = Inr [4]"
    by code_simp
  have b: "totalsAfter (loggingText_spec (ex_env ex_tuesday ''-'') 1 ''g1'' ''ran 5k'' ex_logging_store) = Inr [5]"
    by code_simp
  from a b show ?thesis by auto
qed

text \<open>
  Claim C8, amended. A user whose status is \<open>logging_goal\<close> followed by the identifier of a
  stored goal sends a text. A text of more than 96 characters is turned down and the store is
  unchanged. Otherwise the only change to the goals is the new entry, made of the date and the
  lower-cased text, in front of that goal's log (streak, total, \<open>lastUpdate\<close> and \<open>lastDay\<close>
  stay as they are: the streak engine is not invoked), and the user's status becomes \<open>null\<close>.
\<close>

theorem C8_logging_text_amended:
  assumes "findOne (userByName senderID) (users s) = Some result"
    and "u_status result = ''logging_goal'' @ gid"
    and "findOne (goalById gid) (goals s) = Some goal"
    and "\<not> m_is_echo m" and "m_quick_reply m = None" and "m_text m = Some t" and "t \<noteq> []"
  shows "if length t > 96
         then receivedMessage e senderID m s =
                Inr (s, [TextMessage senderID ''That goal log is too long. Try another log.''])
         else (\<exists>s' out. receivedMessage e senderID m s = Inr (s', out) \<and>
                 goals s' = updateOne (goalById gid)
                   (\<lambda>g. g\<lparr>g_log := logEntry (now e) (toLowerCase t) # g_log goal\<rparr>) (goals s) \<and>
                 findOne (goalById gid) (goals s') =
                   Some (goal\<lparr>g_log := logEntry (now e) (toLowerCase t) # g_log goal\<rparr>) \<and>
                 map_option u_status (findOne (userByName senderID) (users s')) = Some ''null'')"
proof -
  have disp: "receivedMessage e senderID m s =
     (case logGoal e senderID gid (toLowerCase t) s of Inl x \<Rightarrow> Inl x | Inr (s1, out) \<Rightarrow> Inr (s1, out))"
  proof -
    have p: "substring 0 12 (u_status result) = ''logging_goal''"
      "substring 12 (int (length (u_status result))) (u_status result) = gid"
      "u_status result \<noteq> ''naming_goal''" "u_status result \<noteq> ''null''"
      by (simp_all add: assms(2) substring_def)
    show ?thesis
      using assms(1,4,5,6,7)
      by (simp add: receivedMessage_def textMessage_def p split: sum.splits)
  qed
  show ?thesis
  proof (cases "length t > 96")
    case True
    then show ?thesis
      by (simp add: disp logGoal_rejects toLowerCase_def)
  next
    case False
    then have len: "length (toLowerCase t) \<le> 96" by (simp add: toLowerCase_def)
    from logGoal_accepts [OF assms(3) assms(1) len, of e]
    obtain s' out where h: "logGoal e senderID gid (toLowerCase t) s = Inr (s', out)"
      "goals s' = updateOne (goalById gid)
          (\<lambda>g. g\<lparr>g_log := logEntry (now e) (toLowerCase t) # g_log goal\<rparr>) (goals s)"
      "map_option u_status (findOne (userByName senderID) (users s')) = Some ''null''"
      by blast
    have "findOne (goalById gid) (goals s') =
            Some (goal\<lparr>g_log := logEntry (now e) (toLowerCase t) # g_log goal\<rparr>)"
      by (simp add: h(2) findOne_goal_updateOne assms(3))
    with h False show ?thesis
      by (simp add: disp)
  qed
qed

theorem C8_logging_text_amended_witness:
  "findOne (userByName 1) (users ex_logging_store) = Some (ex_user\<lparr>u_status := ''logging_goalg1''\<rparr>) \<and>
   u_status (ex_user\<lparr>u_status := ''logging_goalg1''\<rparr>) = ''logging_goal'' @ ''g1'' \<and>
   findOne (goalById ''g1'') (goals ex_logging_store) = Some ex_goal \<and>
   \<not> m_is_echo (ex_text ''Ran 5k'') \<and> m_quick_reply (ex_text ''Ran 5k'') = None \<and>
   m_text (ex_text ''Ran 5k'') = Some ''Ran 5k'' \<and> ''Ran 5k'' \<noteq> [] \<and>
   (\<exists>s' out. receivedMessage (ex_env ex_tuesday ''-'') 1 (ex_text ''Ran 5k'') ex_logging_store = Inr (s', out) \<and>
      findOne (goalById ''g1'') (goals s') =
        Some (ex_goal\<lparr>g_log := logEntry (now (ex_env ex_tuesday ''-'')) (toLowerCase ''Ran 5k'') # g_log ex_goal\<rparr>) \<and>
      map_option u_status (findOne (userByName 1) (users s')) = Some ''null'')"
proof -
  have h1: "findOne (userByName 1) (users ex_logging_store) = Some (ex_user\<lparr>u_status := ''logging_goalg1''\<rparr>)"
    by (simp add: ex_logging_store_def ex_user_def userByName_def)
  have h2: "u_status (ex_user\<lparr>u_status := ''logging_goalg1''\<rparr>) = ''logging_goal'' @ ''g1''"
    by simp
  have h3: "findOne (goalById ''g1'') (goals ex_logging_store) = Some ex_goal"
    by (simp add: ex_logging_store_def ex_goal_def goalById_def)
  have h4: "\<not> m_is_echo (ex_text ''Ran 5k'')" and h5: "m_quick_reply (ex_text ''Ran 5k'') = None"
    and h6: "m_text (ex_text ''Ran 5k'') = Some ''Ran 5k''" and h7: "''Ran 5k'' \<noteq> []"
    by (simp_all add: ex_text_def)
  have len: "\<not> length ''Ran 5k'' > 96" by simp
  from C8_logging_text_amended [OF h1 h2 h3 h4 h5 h6 h7, of "ex_env ex_tuesday ''-''"] len
  have "\<exists>s' out. receivedMessage (ex_env ex_tuesday ''-'') 1 (ex_text ''Ran 5k'') ex_logging_store = Inr (s', out) \<and>
      goals s' = updateOne (goalById ''g1'')
        (\<lambda>g. g\<lparr>g_log := logEntry (now (ex_env ex_tuesday ''-'')) (toLowerCase ''Ran 5k'') # g_log ex_goal\<rparr>)
        (goals ex_logging_store) \<and>
      findOne (goalById ''g1'') (goals s') =
        Some (ex_goal\<lparr>g_log := logEntry (now (ex_env ex_tuesday ''-'')) (toLowerCase ''Ran 5k'') # g_log ex_goal\<rparr>) \<and>
      map_option u_status (findOne (userByName 1) (users s')) = Some ''null''"
    by (simp only: if_False)
  with h1 h2 h3 h4 h5 h6 h7 show ?thesis
    by blast
qed

section \<open>Counters stay non-negative\<close>

text \<open>
  Claim C9. \<open>nameGoal\<close> creates a goal with streak 0 and total 0, and every event keeps the
  streak and the total of every stored goal at 0 or above: a view (\<open>Payload view\<close>,
  \<open>Payload progress\<close>) writes 0 or nothing, a progress event (\<open>prog\<close>) writes the new streak
  and the total plus 1. So after any sequence of events that runs to its end, from a store whose
  goals have non-negative counters, the counters are non-negative.
\<close>

theorem C9_counters_never_negative:
  assumes "run evs s = Inr s'"
    and "\<forall>g\<in>set (goals s). 0 \<le> g_streak g \<and> 0 \<le> g_total g"
  shows "g_streak (newGoal e senderID messageText) = 0 \<and> g_total (newGoal e senderID messageText) = 0 \<and>
         (\<forall>g\<in>set (goals s'). 0 \<le> g_streak g \<and> 0 \<le> g_total g)"
proof -
  have "goalsOk s"
    using assms(2) by (simp add: goalsOk_def goalOk_def list_all_iff)
  from run_ok [OF this assms(1)] have "goalsOk s'" .
  then show ?thesis
    by (simp add: goalsOk_def goalOk_def list_all_iff newGoal_def)
qed

theorem C9_counters_never_negative_witness:
  "run ex_view_then_progress ex_store =
     Inr \<lparr>users = [ex_user],
          goals = [\<lparr>g_id = ''g1'', g_user = 1, g_name = ''Run'', g_streak = 3,
                    g_log = [''10/8 ran 5k'', ''10/7 ran 5k''],
                    g_lastUpdate = 1478595600000, g_lastDay = 2, g_total = 5\<rparr>]\<rparr> \<and>
   goalsOk ex_store \<and>
   goalsOk \<lparr>users = [ex_user],
          goals = [\<lparr>g_id = ''g1'', g_user = 1, g_name = ''Run'', g_streak = 3,
                    g_log = [''10/8 ran 5k'', ''10/7 ran 5k''],
                    g_lastUpdate = 1478595600000, g_lastDay = 2, g_total = 5\<rparr>]\<rparr>"
proof -
  have h1: "run ex_view_then_progress ex_store =
     Inr \<lparr>users = [ex_user],
          goals = [\<lparr>g_id = ''g1'', g_user = 1, g_name = ''Run'', g_streak = 3,
                    g_log = [''10/8 ran 5k'', ''10/7 ran 5k''],
                    g_lastUpdate = 1478595600000, g_lastDay = 2, g_total = 5\<rparr>]\<rparr>"
    by code_simp
  have h2: "\<forall>g\<in>set (goals ex_store). 0 \<le> g_streak g \<and> 0 \<le> g_total g"
    by (simp add: ex_store_def ex_goal_def)
  from C9_counters_never_negative [OF h1 h2] h1 h2 show ?thesis
    unfolding goalsOk_def goalOk_def list_all_iff by blast
qed

section \<open>The list of finished goals\<close>

text \<open>
  Claim C10. For a stored user, the postback \<open>Payload finished\<close> changes nothing in the store
  and sends one message whose text is the header line alone, whatever the user's \<open>finished\<close>
  list holds: the loop over the list is bounded by \<open>result.length\<close>, which a user document does
  not have.
\<close>

theorem C10_finished_list_header_only:
  assumes "findOne (userByName senderID) (users s) = Some result"
  shows "receivedPostback e senderID ''Payload finished'' s =
           Inr (s, [HomeMessage senderID (''Here are your finished goals:'' @ newline)])"
  using assms by (simp add: receivedPostback_def substring_def userLength_def)

theorem C10_finished_list_header_only_witness:
  "findOne (userByName 1) (users ex_store) = Some ex_user \<and>
   u_finished ex_user = [''Swim'' @ flame @ ''3''] \<and>
   receivedPostback (ex_env ex_tuesday ''-'') 1 ''Payload finished'' ex_store =
     Inr (ex_store, [HomeMessage 1 (''Here are your finished goals:'' @ newline)])"
proof -
  have h1: "findOne (userByName 1) (users ex_store) = Some ex_user"
    by (simp add: ex_store_def ex_user_def userByName_def)
  have h2: "u_finished ex_user = [''Swim'' @ flame @ ''3'']"
    by (simp add: ex_user_def)
  from C10_finished_list_header_only [OF h1, of "ex_env ex_tuesday ''-''"] h1 h2 show ?thesis
    by blast
qed

end
